theory Spec2Isabelle
  imports Complex_Main "HOL-Library.Word"
begin

section \<open>Data model of the convert route\<close>

text \<open>
  The development embeds \<^verbatim>\<open>src/app/api/convert/route.ts\<close> and the helpers of
  \<^verbatim>\<open>@/lib/utils\<close>. A JavaScript \<^verbatim>\<open>number\<close> that the route computes with is a finite
  double (every numeric form field goes through \<^verbatim>\<open>safeNumber\<close>); it is modelled as an
  exact rational. Sums, halves and the steps of two of the search are exact on doubles
  for integer-valued inputs below \<open>2^53\<close>, which is where the two agree.
  A \<^verbatim>\<open>Buffer\<close> is a list of bytes, a thrown value is an \<open>error\<close>, and a promise that
  rejects is the left injection of a sum.
\<close>

type_synonym buffer = "8 word list"

datatype error = Error string | Thrown

record input_file =
  name :: string
  content :: buffer

text \<open>A form entry is \<^verbatim>\<open>FormDataEntryValue\<close>: a string or a file.\<close>

datatype form_entry = Text string | Blob input_file

subsection \<open>The image library\<close>

text \<open>
  A \<^verbatim>\<open>sharp\<close> object is a description of work: the input, the constructor's option and
  the operations chained on it, in call order. Nothing runs before \<^verbatim>\<open>toBuffer\<close>, which is
  the library's and is a parameter of the model (a \<open>codec\<close>).
\<close>

datatype sharp_op =
    Rotate
  | Resize "rat option" "rat option" string bool
  | WithMetadata
  | Flatten string
  | ToJpeg rat "bool option" "bool option"
  | ToPng rat nat bool
  | ToWebp rat nat bool
  | ToAvif rat nat
  | ToTiff rat string
  | ToGif

record sharp =
  input :: buffer
  animated :: bool
  ops :: "sharp_op list"

type_synonym codec = "sharp \<Rightarrow> error + buffer"

definition chain :: "sharp \<Rightarrow> sharp_op \<Rightarrow> sharp" where
  "chain pipeline op = pipeline\<lparr>ops := ops pipeline @ [op]\<rparr>"

subsection \<open>Truthiness and defaults\<close>

definition truthy_number :: "rat option \<Rightarrow> bool" where
  "truthy_number v = (case v of None \<Rightarrow> False | Some x \<Rightarrow> x \<noteq> 0)"

definition truthy_string :: "string option \<Rightarrow> bool" where
  "truthy_string v = (case v of None \<Rightarrow> False | Some s \<Rightarrow> s \<noteq> [])"

definition or_undefined :: "rat option \<Rightarrow> rat option" where
  "or_undefined v = (if truthy_number v then v else None)"

definition or_default :: "string option \<Rightarrow> string \<Rightarrow> string" where
  "or_default v d = (if truthy_string v then the v else d)"

text \<open>\<^verbatim>\<open>Math.round\<close>: the nearest integer, a tie going up.\<close>

definition js_round :: "rat \<Rightarrow> rat" where
  "js_round x = of_int \<lfloor>x + 1 / 2\<rfloor>"

section \<open>Pipeline builder and single-pass encoder\<close>

record build_options =
  width :: "rat option"
  height :: "rat option"
  fit :: "string option"
  keepMetadata :: bool
  background :: "string option"

record encode_options = build_options +
  lossless :: bool
  progressive :: bool

definition buildPipeline :: "buffer \<Rightarrow> 'a build_options_scheme \<Rightarrow> sharp" where
  "buildPipeline buf options =
     (let pipeline = chain \<lparr>input = buf, animated = False, ops = []\<rparr> Rotate;
          pipeline =
            (if truthy_number (width options) \<or> truthy_number (height options)
             then chain pipeline
                    (Resize (or_undefined (width options)) (or_undefined (height options))
                       (or_default (fit options) ''inside'') True)
             else pipeline);
          pipeline = (if keepMetadata options then chain pipeline WithMetadata else pipeline);
          pipeline =
            (if truthy_string (background options)
             then chain pipeline (Flatten (the (background options)))
             else pipeline)
      in pipeline)"

definition encodeWithQuality ::
  "buffer \<Rightarrow> string \<Rightarrow> rat \<Rightarrow> 'a encode_options_scheme \<Rightarrow> sharp" where
  "encodeWithQuality buf format quality options =
     (let pipeline = buildPipeline buf options in
      if format = ''jpeg'' then chain pipeline (ToJpeg quality (Some True) (Some (progressive options)))
      else if format = ''png'' then chain pipeline (ToPng quality 9 True)
      else if format = ''webp'' then chain pipeline (ToWebp quality 5 (lossless options))
      else if format = ''avif'' then chain pipeline (ToAvif quality 5)
      else if format = ''tiff'' then chain pipeline (ToTiff quality ''lzw'')
      else if format = ''gif'' then chain pipeline ToGif
      else chain pipeline (ToJpeg quality None None))"

section \<open>Target-size search\<close>

text \<open>\<open>bestDiff\<close> starts at \<^verbatim>\<open>Number.POSITIVE_INFINITY\<close>.\<close>

datatype best_diff = PositiveInfinity | Diff rat

fun below :: "rat \<Rightarrow> best_diff \<Rightarrow> bool" where
  "below d PositiveInfinity = True"
| "below d (Diff b) = (d < b)"

record search_state =
  low :: rat
  high :: rat
  bestBuffer :: "buffer option"
  bestDiff :: best_diff

text \<open>
  The loop of \<^verbatim>\<open>encodeToTargetSize\<close>, with the counter \<open>i\<close> of the source. An encode
  that rejects ends the search with that error. The last argument is the list of the
  qualities handed to the encoder so far, one entry for each call of \<^verbatim>\<open>encodeWithQuality\<close>,
  kept to speak about the calls.
\<close>

function search_loop ::
  "codec \<Rightarrow> buffer \<Rightarrow> string \<Rightarrow> rat \<Rightarrow> 'a encode_options_scheme \<Rightarrow>
   nat \<Rightarrow> search_state \<Rightarrow> rat list \<Rightarrow> (error + search_state) \<times> rat list" where
  "search_loop toBuffer buf format targetBytes options i st calls =
     (if i < 8 then
        (let quality = js_round ((low st + high st) / 2) in
         case toBuffer (encodeWithQuality buf format quality options) of
           Inl e \<Rightarrow> (Inl e, calls @ [quality])
         | Inr encoded \<Rightarrow>
             (let diff = \<bar>of_nat (length encoded) - targetBytes\<bar>;
                  st = (if below diff (bestDiff st)
                        then st\<lparr>bestDiff := Diff diff, bestBuffer := Some encoded\<rparr>
                        else st);
                  st = (if of_nat (length encoded) > targetBytes
                        then st\<lparr>high := quality - 2\<rparr>
                        else st\<lparr>low := quality + 2\<rparr>)
              in search_loop toBuffer buf format targetBytes options (i + 1) st
                   (calls @ [quality])))
      else (Inr st, calls))"
  by pat_completeness auto
termination
  by (relation "measure (\<lambda>(_, _, _, _, _, i, _, _). 8 - i)") auto

definition search_init :: "rat \<Rightarrow> search_state" where
  "search_init baseQuality =
     \<lparr>low = 30, high = max baseQuality 40, bestBuffer = None, bestDiff = PositiveInfinity\<rparr>"

definition encodeToTargetSize ::
  "codec \<Rightarrow> buffer \<Rightarrow> string \<Rightarrow> rat \<Rightarrow> rat \<Rightarrow> 'a encode_options_scheme \<Rightarrow>
   (error + buffer) \<times> rat list" where
  "encodeToTargetSize toBuffer buf format targetBytes baseQuality options =
     (case search_loop toBuffer buf format targetBytes options 0 (search_init baseQuality) [] of
        (Inl e, calls) \<Rightarrow> (Inl e, calls)
      | (Inr st, calls) \<Rightarrow>
          (case bestBuffer st of
             Some best \<Rightarrow> (Inr best, calls)
           | None \<Rightarrow>
               (toBuffer (encodeWithQuality buf format baseQuality options),
                calls @ [baseQuality])))"


subsection \<open>The search as the specification words it\<close>








subsection \<open>Sample inputs\<close>

definition plain_options :: encode_options where
  "plain_options =
     \<lparr>width = None, height = None, fit = Some ''inside'', keepMetadata = False,
      background = None, lossless = False, progressive = False\<rparr>"

text \<open>An encoder whose output is always empty, and one whose output is always three bytes.\<close>

definition empty_codec :: codec where
  "empty_codec pipeline = Inr []"

definition three_byte_codec :: codec where
  "three_byte_codec pipeline = Inr [0, 0, 0]"


text \<open>An encoder whose output has as many bytes as the quality asked of it.\<close>

definition quality_bytes :: "rat \<Rightarrow> buffer" where
  "quality_bytes quality = replicate (nat \<lfloor>quality\<rfloor>) 0"

definition quality_codec :: codec where
  "quality_codec pipeline =
     (case last (ops pipeline) of
        ToJpeg quality mozjpeg prog \<Rightarrow> Inr (quality_bytes quality)
      | _ \<Rightarrow> Inl (Error ''unsupported''))"

section \<open>Parameter normalisation\<close>

subsection \<open>Boolean coercion\<close>

text \<open>
  The values \<^verbatim>\<open>toBoolean\<close> of \<^verbatim>\<open>@/lib/utils\<close> accepts:
  \<^verbatim>\<open>string | number | boolean | null | undefined | File\<close>. A number is finite, not a
  number, or one of the infinities.
\<close>

datatype js_number = Num rat | NaN | PosInfinity | NegInfinity

datatype js_value =
    JString string
  | JNumber js_number
  | JBoolean bool
  | JNull
  | JUndefined
  | JFile input_file

datatype primitive = PString string | PNumber js_number | PBoolean bool

text \<open>
  \<^verbatim>\<open>value === p\<close> for a primitive \<open>p\<close>: the types must agree, and \<^verbatim>\<open>NaN\<close> equals nothing.
\<close>

fun strict_equal :: "js_value \<Rightarrow> primitive \<Rightarrow> bool" where
  "strict_equal (JString a) (PString b) = (a = b)"
| "strict_equal (JNumber a) (PNumber b) = (a = b \<and> a \<noteq> NaN)"
| "strict_equal (JBoolean a) (PBoolean b) = (a = b)"
| "strict_equal _ _ = False"

definition toBoolean :: "js_value \<Rightarrow> bool" where
  "toBoolean v =
     (strict_equal v (PString ''true'') \<or> strict_equal v (PString ''1'') \<or>
      strict_equal v (PNumber (Num 1)) \<or> strict_equal v (PBoolean True))"

text \<open>
  The route has a \<^verbatim>\<open>toBoolean\<close> of its own, on \<^verbatim>\<open>FormDataEntryValue | null\<close>, which
  compares with the two strings only.
\<close>

fun entry_value :: "form_entry option \<Rightarrow> js_value" where
  "entry_value None = JNull"
| "entry_value (Some (Text s)) = JString s"
| "entry_value (Some (Blob f)) = JFile f"

definition route_toBoolean :: "form_entry option \<Rightarrow> bool" where
  "route_toBoolean v =
     (strict_equal (entry_value v) (PString ''true'') \<or>
      strict_equal (entry_value v) (PString ''1''))"

subsection \<open>Numbers\<close>

fun truthy_entry :: "form_entry option \<Rightarrow> bool" where
  "truthy_entry None = False"
| "truthy_entry (Some (Text s)) = (s \<noteq> [])"
| "truthy_entry (Some (Blob f)) = True"

text \<open>
  \<^verbatim>\<open>Number(value)\<close> on a string is the language's; it is the parameter \<open>to_number\<close>,
  which gives \<open>None\<close> where the result is not finite. A file converts to \<^verbatim>\<open>NaN\<close>.
\<close>

definition safeNumber :: "(string \<Rightarrow> rat option) \<Rightarrow> form_entry option \<Rightarrow> rat \<Rightarrow> rat" where
  "safeNumber to_number v fallback =
     (if \<not> truthy_entry v then fallback
      else (case v of
              Some (Text s) \<Rightarrow> (case to_number s of Some parsed \<Rightarrow> parsed | None \<Rightarrow> fallback)
            | _ \<Rightarrow> fallback))"

subsection \<open>Extensions and formats\<close>

text \<open>\<^verbatim>\<open>name.split(".")\<close>: the pieces between the dots, at least one.\<close>

fun split_on :: "char \<Rightarrow> string \<Rightarrow> string list" where
  "split_on sep [] = [[]]"
| "split_on sep (c # cs) =
     (if c = sep then [] # split_on sep cs
      else (case split_on sep cs of
              [] \<Rightarrow> [[c]]
            | part # parts \<Rightarrow> (c # part) # parts))"

text \<open>
  \<^verbatim>\<open>toLowerCase\<close> on the letters of ASCII; the recognised extensions have no other
  characters.
\<close>

definition toLowerCase :: "string \<Rightarrow> string" where
  "toLowerCase s =
     map (\<lambda>c. case map_of (zip ''ABCDEFGHIJKLMNOPQRSTUVWXYZ'' ''abcdefghijklmnopqrstuvwxyz'') c of
                Some l \<Rightarrow> l
              | None \<Rightarrow> c) s"

definition getExtension :: "string \<Rightarrow> string" where
  "getExtension file_name =
     (let parts = split_on CHR ''.'' file_name
      in if length parts > 1 then toLowerCase (last parts) else [])"

text \<open>
  The type \<^verbatim>\<open>OutputFormat\<close> is a union of string literals and the route casts the form
  field to it unchecked, so a format is a string here as it is at run time.
\<close>

definition normalizeFormat :: "string \<Rightarrow> string \<Rightarrow> string" where
  "normalizeFormat format fallback =
     (if format = ''auto'' then
        (if fallback = ''jpeg'' then ''jpeg''
         else if fallback = ''jpg'' then ''jpeg''
         else if fallback = ''png'' then ''png''
         else if fallback = ''webp'' then ''webp''
         else if fallback = ''avif'' then ''avif''
         else if fallback = ''tiff'' then ''tiff''
         else if fallback = ''gif'' then ''gif''
         else ''jpeg'')
      else if format = ''jpg'' then ''jpeg''
      else format)"

definition presetQuality :: "string \<rightharpoonup> rat" where
  "presetQuality = map_of [(''tiny'', 45), (''small'', 60), (''balanced'', 75), (''crisp'', 88)]"

definition mimeForFormat :: "string \<rightharpoonup> string" where
  "mimeForFormat =
     map_of [(''jpeg'', ''image/jpeg''), (''jpg'', ''image/jpeg''), (''png'', ''image/png''),
             (''webp'', ''image/webp''), (''avif'', ''image/avif''), (''tiff'', ''image/tiff''),
             (''gif'', ''image/gif'')]"

section \<open>The request handler\<close>

text \<open>
  The parsed form: the files sent under \<^verbatim>\<open>files\<close>, and the text sent under the other
  names (a name that is absent gives \<^verbatim>\<open>null\<close>).
\<close>

record form_data =
  files :: "input_file list"
  entries :: "string \<rightharpoonup> string"

definition get :: "form_data \<Rightarrow> string \<Rightarrow> form_entry option" where
  "get formData key = map_option Text (entries formData key)"

definition requestedFormat :: "form_data \<Rightarrow> string" where
  "requestedFormat formData = or_default (entries formData ''format'') ''auto''"

definition preset :: "form_data \<Rightarrow> string" where
  "preset formData = or_default (entries formData ''preset'') ''balanced''"

definition form_quality :: "(string \<Rightarrow> rat option) \<Rightarrow> form_data \<Rightarrow> rat" where
  "form_quality to_number formData =
     safeNumber to_number (get formData ''quality'')
       (case presetQuality (preset formData) of Some q \<Rightarrow> q | None \<Rightarrow> 75)"

definition targetSizeKB :: "(string \<Rightarrow> rat option) \<Rightarrow> form_data \<Rightarrow> rat" where
  "targetSizeKB to_number formData = safeNumber to_number (get formData ''targetSizeKB'') 0"

definition resizeWidth :: "(string \<Rightarrow> rat option) \<Rightarrow> form_data \<Rightarrow> rat" where
  "resizeWidth to_number formData = safeNumber to_number (get formData ''width'') 0"

definition resizeHeight :: "(string \<Rightarrow> rat option) \<Rightarrow> form_data \<Rightarrow> rat" where
  "resizeHeight to_number formData = safeNumber to_number (get formData ''height'') 0"

definition form_fit :: "form_data \<Rightarrow> string" where
  "form_fit formData = or_default (entries formData ''fit'') ''inside''"

definition form_keepMetadata :: "form_data \<Rightarrow> bool" where
  "form_keepMetadata formData = route_toBoolean (get formData ''keepMetadata'')"

definition form_flatten :: "form_data \<Rightarrow> bool" where
  "form_flatten formData = route_toBoolean (get formData ''flatten'')"

definition form_background :: "form_data \<Rightarrow> string" where
  "form_background formData = or_default (entries formData ''background'') ''#ffffff''"

definition form_lossless :: "form_data \<Rightarrow> bool" where
  "form_lossless formData = route_toBoolean (get formData ''lossless'')"

definition form_progressive :: "form_data \<Rightarrow> bool" where
  "form_progressive formData = route_toBoolean (get formData ''progressive'')"

subsection \<open>One file\<close>

definition outputFormat :: "form_data \<Rightarrow> input_file \<Rightarrow> string" where
  "outputFormat formData f = normalizeFormat (requestedFormat formData) (getExtension (name f))"

definition hasAlphaFormats :: "string list" where
  "hasAlphaFormats = [''png'', ''webp'', ''avif'', ''gif'']"

definition shouldFlatten :: "form_data \<Rightarrow> input_file \<Rightarrow> bool" where
  "shouldFlatten formData f =
     (form_flatten formData \<and> outputFormat formData f \<notin> set hasAlphaFormats)"

definition encoderOptions ::
  "(string \<Rightarrow> rat option) \<Rightarrow> form_data \<Rightarrow> input_file \<Rightarrow> encode_options" where
  "encoderOptions to_number formData f =
     \<lparr>width = or_undefined (Some (resizeWidth to_number formData)),
      height = or_undefined (Some (resizeHeight to_number formData)),
      fit = Some (form_fit formData),
      keepMetadata = form_keepMetadata formData,
      background = (if shouldFlatten formData f then Some (form_background formData) else None),
      lossless = form_lossless formData,
      progressive = form_progressive formData\<rparr>"

text \<open>
  The regular expression \<^verbatim>\<open>/\.[^/.]+$/\<close>: a dot, then one or more characters that are
  neither a slash nor a dot, up to the end of the string. \<open>matches_to_end s\<close> says that
  the whole of \<open>s\<close> is such a match; \<^verbatim>\<open>replace\<close> removes the leftmost match.
\<close>

definition matches_to_end :: "string \<Rightarrow> bool" where
  "matches_to_end s =
     (case s of
        [] \<Rightarrow> False
      | c # cs \<Rightarrow> c = CHR ''.'' \<and> cs \<noteq> [] \<and> list_all (\<lambda>x. x \<noteq> CHR ''/'' \<and> x \<noteq> CHR ''.'') cs)"

fun replace_extension :: "string \<Rightarrow> string" where
  "replace_extension [] = []"
| "replace_extension (c # cs) =
     (if matches_to_end (c # cs) then [] else c # replace_extension cs)"

definition outputName :: "form_data \<Rightarrow> input_file \<Rightarrow> string" where
  "outputName formData f =
     (let extension = (if outputFormat formData f = ''jpeg'' then ''jpg'' else outputFormat formData f);
          baseName = replace_extension (name f)
      in baseName @ ''.'' @ extension)"

text \<open>The object a job returns: \<^verbatim>\<open>{ name, buffer, mime }\<close>.\<close>

record converted =
  result_name :: string
  result_buffer :: buffer
  result_mime :: "string option"

definition convert_file ::
  "(string \<Rightarrow> rat option) \<Rightarrow> codec \<Rightarrow> form_data \<Rightarrow> input_file \<Rightarrow> error + converted" where
  "convert_file to_number toBuffer formData f =
     (let buf = content f;
          encoded =
            (if targetSizeKB to_number formData > 0
             then fst (encodeToTargetSize toBuffer buf (outputFormat formData f)
                         (targetSizeKB to_number formData * 1024)
                         (form_quality to_number formData)
                         (encoderOptions to_number formData f))
             else toBuffer (encodeWithQuality buf (outputFormat formData f)
                              (form_quality to_number formData)
                              (encoderOptions to_number formData f)))
      in case encoded of
           Inl e \<Rightarrow> Inl e
         | Inr bytes \<Rightarrow>
             Inr \<lparr>result_name = outputName formData f, result_buffer = bytes,
                  result_mime = mimeForFormat (outputFormat formData f)\<rparr>)"

subsection \<open>The batch\<close>

text \<open>
  \<^verbatim>\<open>Promise.all\<close> rejects with the reason of the promise that rejects first in time and
  fulfils, when none rejects, with the values in the order of the promises. The order in
  which the jobs settle is not the program's to choose: it is the list \<open>settle\<close> of
  positions, read from the left (positions it leaves out come after, in list order).
\<close>

definition promise_all :: "nat list \<Rightarrow> (error + 'a) list \<Rightarrow> error + 'a list" where
  "promise_all settle results =
     (case [e. i \<leftarrow> settle @ [0..<length results], i < length results, Inl e \<leftarrow> [results ! i]] of
        e # _ \<Rightarrow> Inl e
      | [] \<Rightarrow> Inr [v. Inr v \<leftarrow> results])"

text \<open>
  A response is a download (body, content type, file name) or a JSON error with its
  status. The archive writer is the library's: it is the parameter \<open>archive\<close>.
\<close>

datatype response =
    Download buffer "string option" string
  | JsonError nat string

definition failure :: "error \<Rightarrow> response" where
  "failure e =
     JsonError 500 (case e of Error message \<Rightarrow> message | Thrown \<Rightarrow> ''Failed to process images.'')"

definition POST ::
  "(string \<Rightarrow> rat option) \<Rightarrow> codec \<Rightarrow> ((string \<times> buffer) list \<Rightarrow> error + buffer) \<Rightarrow>
   nat list \<Rightarrow> form_data \<Rightarrow> response" where
  "POST to_number toBuffer archive settle formData =
     (if files formData = [] then JsonError 400 ''No files provided.''
      else
        (case promise_all settle (map (convert_file to_number toBuffer formData) (files formData)) of
           Inl e \<Rightarrow> failure e
         | Inr outputs \<Rightarrow>
             (case outputs of
                [out] \<Rightarrow> Download (result_buffer out) (result_mime out) (result_name out)
              | _ \<Rightarrow>
                  (case archive (map (\<lambda>out. (result_name out, result_buffer out)) outputs) of
                     Inl e \<Rightarrow> failure e
                   | Inr zipBuffer \<Rightarrow>
                       Download zipBuffer (Some ''application/zip'') ''optipic-export.zip''))))"

subsection \<open>Sample requests\<close>

definition no_number :: "string \<Rightarrow> rat option" where
  "no_number s = None"

definition joined_archive :: "(string \<times> buffer) list \<Rightarrow> error + buffer" where
  "joined_archive members = Inr (concat (map snd members))"

text \<open>A codec that returns its input and rejects an empty one.\<close>

definition picky_codec :: codec where
  "picky_codec pipeline =
     (if input pipeline = [] then Inl (Error ''Input buffer is empty'')
      else Inr (input pipeline))"

definition good_file :: input_file where
  "good_file = \<lparr>name = ''a.png'', content = [1]\<rparr>"

definition bad_file :: input_file where
  "bad_file = \<lparr>name = ''b.png'', content = []\<rparr>"

definition batch_form :: form_data where
  "batch_form = \<lparr>files = [good_file, bad_file], entries = Map.empty\<rparr>"

definition single_form :: form_data where
  "single_form = \<lparr>files = [good_file], entries = Map.empty\<rparr>"

definition empty_form :: form_data where
  "empty_form = \<lparr>files = [], entries = Map.empty\<rparr>"

definition flatten_form :: form_data where
  "flatten_form = \<lparr>files = [], entries = [''flatten'' \<mapsto> ''true'', ''format'' \<mapsto> ''auto'']\<rparr>"

definition trailing_dot_file :: input_file where
  "trailing_dot_file = \<lparr>name = ''photo.'', content = [1]\<rparr>"

definition slash_file :: input_file where
  "slash_file = \<lparr>name = ''a.b/c'', content = [1]\<rparr>"

definition jpg_file :: input_file where
  "jpg_file = \<lparr>name = ''holiday.2024.JPG'', content = [1]\<rparr>"

definition resize_options :: build_options where
  "resize_options =
     \<lparr>width = Some 800, height = Some 0, fit = None, keepMetadata = True,
      background = Some ''#ffffff''\<rparr>"

subsection \<open>The output name as the specification words it\<close>

text \<open>
  The text after the last dot of a name and the text before it, and the name without its
  final dot-extension: what is before the last dot, or the whole name when it has no dot.
\<close>

definition after_last_dot :: "string \<Rightarrow> string" where
  "after_last_dot s = rev (takeWhile (\<lambda>c. c \<noteq> CHR ''.'') (rev s))"

definition before_last_dot :: "string \<Rightarrow> string" where
  "before_last_dot s = rev (tl (dropWhile (\<lambda>c. c \<noteq> CHR ''.'') (rev s)))"

definition without_final_extension :: "string \<Rightarrow> string" where
  "without_final_extension s = (if CHR ''.'' \<in> set s then before_last_dot s else s)"

definition claimed_outputName :: "form_data \<Rightarrow> input_file \<Rightarrow> string" where
  "claimed_outputName formData f =
     without_final_extension (name f) @ ''.'' @
       (if outputFormat formData f = ''jpeg'' then ''jpg'' else outputFormat formData f)"

section \<open>Properties of the target-size search\<close>

subsection \<open>Unfolding the loop\<close>


declare search_loop.simps [simp del]
























subsection \<open>The steps of the search\<close>



subsection \<open>Best-candidate tracking\<close>





lemma tie_keeps_earlier_example:
  "encodeToTargetSize quality_codec [] ''jpeg'' (121 / 2) 75 plain_options =
     (Inr (quality_bytes 61), [53, 65, 59, 62, 61, 60, 61, 61])"
  by code_simp

subsection \<open>The search returns a buffer\<close>



subsection \<open>The range of the probed qualities\<close>


lemma probed_qualities_examples:
  "snd (encodeToTargetSize empty_codec [] ''jpeg'' 1 95 plain_options) = [63, 80, 89, 93, 95, 96, 97, 97]"
  "snd (encodeToTargetSize three_byte_codec [] ''jpeg'' 2 75 plain_options) = [53, 41, 35, 32, 30, 29, 29, 29]"
  by code_simp+



section \<open>Properties of the parameter normaliser\<close>

text \<open>
  C6. \<open>toBoolean\<close> is true exactly for the string \<^verbatim>\<open>"true"\<close>, the string \<^verbatim>\<open>"1"\<close>, the
  number 1 and the boolean \<^verbatim>\<open>true\<close>; it is false for \<^verbatim>\<open>null\<close>, \<^verbatim>\<open>undefined\<close>,
  \<^verbatim>\<open>"false"\<close>, \<^verbatim>\<open>"0"\<close>, 0, \<^verbatim>\<open>NaN\<close>, \<^verbatim>\<open>false\<close> and every file. The route's own
  \<open>toBoolean\<close>, whose argument is a form entry or \<^verbatim>\<open>null\<close>, agrees with it on every
  argument it can receive.
\<close>

theorem toBoolean_true_exactly_for_four:
  "toBoolean v = (v = JString ''true'' \<or> v = JString ''1'' \<or> v = JNumber (Num 1) \<or> v = JBoolean True) \<and>
   \<not> toBoolean JNull \<and> \<not> toBoolean JUndefined \<and> \<not> toBoolean (JString ''false'') \<and>
   \<not> toBoolean (JString ''0'') \<and> \<not> toBoolean (JNumber (Num 0)) \<and> \<not> toBoolean (JNumber NaN) \<and>
   \<not> toBoolean (JBoolean False) \<and> \<not> toBoolean (JFile f) \<and>
   route_toBoolean e = toBoolean (entry_value e)"
proof -
  have "toBoolean v = (v = JString ''true'' \<or> v = JString ''1'' \<or> v = JNumber (Num 1) \<or> v = JBoolean True)"
    by (cases v) (auto simp: toBoolean_def)
  moreover have "route_toBoolean e = toBoolean (entry_value e)"
    by (cases e rule: entry_value.cases) (simp_all add: toBoolean_def route_toBoolean_def)
  ultimately show ?thesis by (simp add: toBoolean_def)
qed

text \<open>
  C7. A requested format other than \<^verbatim>\<open>auto\<close> is returned as it is, with \<^verbatim>\<open>jpg\<close>
  turned into \<^verbatim>\<open>jpeg\<close>. For \<^verbatim>\<open>auto\<close> the extensions \<^verbatim>\<open>jpeg\<close> and \<^verbatim>\<open>jpg\<close> give
  \<^verbatim>\<open>jpeg\<close>, the extensions \<^verbatim>\<open>png\<close>, \<^verbatim>\<open>webp\<close>, \<^verbatim>\<open>avif\<close>, \<^verbatim>\<open>tiff\<close> and \<^verbatim>\<open>gif\<close>
  give themselves, and anything else, the empty string included, gives \<^verbatim>\<open>jpeg\<close>. The
  result is never \<^verbatim>\<open>auto\<close> and never \<^verbatim>\<open>jpg\<close>.
\<close>

theorem normalizeFormat_resolution:
  "(format \<noteq> ''auto'' \<longrightarrow>
      normalizeFormat format ext = (if format = ''jpg'' then ''jpeg'' else format)) \<and>
   normalizeFormat ''auto'' ext =
     (if ext = ''jpeg'' \<or> ext = ''jpg'' then ''jpeg''
      else if ext = ''png'' \<or> ext = ''webp'' \<or> ext = ''avif'' \<or> ext = ''tiff'' \<or> ext = ''gif'' then ext
      else ''jpeg'') \<and>
   normalizeFormat ''auto'' [] = ''jpeg'' \<and>
   normalizeFormat format ext \<noteq> ''auto'' \<and> normalizeFormat format ext \<noteq> ''jpg''"
  by (simp add: normalizeFormat_def)

text \<open>The theorem at the request for \<^verbatim>\<open>jpg\<close> of a file with extension \<^verbatim>\<open>png\<close>.\<close>

theorem normalizeFormat_resolution_witness:
  "''jpg'' \<noteq> ''auto'' \<and> normalizeFormat ''jpg'' ''png'' = ''jpeg'' \<and>
   normalizeFormat ''auto'' ''png'' = ''png'' \<and>
   normalizeFormat ''jpg'' ''png'' \<noteq> ''auto'' \<and> normalizeFormat ''jpg'' ''png'' \<noteq> ''jpg''"
  using normalizeFormat_resolution[of "''jpg''" "''png''"] by simp

section \<open>Properties of the pipeline builder\<close>

lemma truthy_number_iff: "truthy_number v = (\<exists>x. v = Some x \<and> x \<noteq> 0)"
  by (cases v) (simp_all add: truthy_number_def)

text \<open>
  C8. The operations of the built pipeline are, in this order: the rotation, always; the
  resize, exactly when the width or the height is a number other than zero, with the
  requested fit or \<^verbatim>\<open>inside\<close> when none is given and with \<^verbatim>\<open>withoutEnlargement\<close> set;
  the metadata stage when asked for; the flatten stage when a background is given. So
  the rotation comes first, and a flatten stage comes after the rotation and the resize.
\<close>

theorem buildPipeline_stages:
  "ops (buildPipeline buf options) =
     [Rotate] @
     (if (\<exists>w. width options = Some w \<and> w \<noteq> 0) \<or> (\<exists>h. height options = Some h \<and> h \<noteq> 0)
      then [Resize (or_undefined (width options)) (or_undefined (height options))
              (case fit options of None \<Rightarrow> ''inside'' | Some m \<Rightarrow> if m = [] then ''inside'' else m) True]
      else []) @
     (if keepMetadata options then [WithMetadata] else []) @
     (if truthy_string (background options) then [Flatten (the (background options))] else [])"
  by (cases "fit options")
     (simp_all add: buildPipeline_def chain_def Let_def truthy_number_iff or_default_def truthy_string_def)

text \<open>
  The theorem at a request for width 800 and height 0 with no fit, with metadata and a
  white background.
\<close>

theorem buildPipeline_stages_witness:
  "ops (buildPipeline [1] resize_options) =
     [Rotate, Resize (Some 800) None ''inside'' True, WithMetadata, Flatten ''#ffffff'']"
  using buildPipeline_stages[of "[1]" resize_options]
  by (simp add: resize_options_def or_undefined_def truthy_number_def truthy_string_def)

lemma ops_encodeWithQuality:
  "\<exists>enc_op. ops (encodeWithQuality buf format q options) = ops (buildPipeline buf options) @ [enc_op] \<and>
     (\<forall>bg. enc_op \<noteq> Flatten bg)"
  by (simp add: encodeWithQuality_def chain_def Let_def)

lemma flatten_in_buildPipeline:
  "(Flatten bg \<in> set (ops (buildPipeline buf options))) =
     (truthy_string (background options) \<and> bg = the (background options))"
  by (auto simp: buildPipeline_def chain_def Let_def)

lemma form_background_nonempty: "form_background formData \<noteq> []"
  by (auto simp: form_background_def or_default_def truthy_string_def split: option.splits)

lemma background_encoderOptions:
  "truthy_string (background (encoderOptions N formData f)) = shouldFlatten formData f"
  by (simp add: encoderOptions_def truthy_string_def form_background_nonempty)

text \<open>
  C9. The pipeline that a file's job hands to the encoder, at any quality, has a flatten
  stage exactly when the \<^verbatim>\<open>flatten\<close> field of the form is \<^verbatim>\<open>"true"\<close> or \<^verbatim>\<open>"1"\<close> and the
  resolved output format is none of \<^verbatim>\<open>png\<close>, \<^verbatim>\<open>webp\<close>, \<^verbatim>\<open>avif\<close>, \<^verbatim>\<open>gif\<close>; for
  these four formats it has none, whatever the flag and the background.
\<close>

theorem flatten_only_without_alpha:
  "(\<exists>bg. Flatten bg \<in> set (ops (encodeWithQuality (content f) (outputFormat formData f) q
                                   (encoderOptions N formData f)))) =
     (form_flatten formData \<and>
      outputFormat formData f \<notin> {''png'', ''webp'', ''avif'', ''gif''}) \<and>
   (outputFormat formData f \<in> {''png'', ''webp'', ''avif'', ''gif''} \<longrightarrow>
      (\<forall>bg. Flatten bg \<notin> set (ops (encodeWithQuality (content f) (outputFormat formData f) q
                                      (encoderOptions N formData f))))) \<and>
   form_flatten formData =
     (entries formData ''flatten'' = Some ''true'' \<or> entries formData ''flatten'' = Some ''1'')"
proof -
  obtain enc_op where
    ops_eq: "ops (encodeWithQuality (content f) (outputFormat formData f) q (encoderOptions N formData f)) =
       ops (buildPipeline (content f) (encoderOptions N formData f)) @ [enc_op]"
    and not_flatten: "\<forall>bg. enc_op \<noteq> Flatten bg"
    using ops_encodeWithQuality by blast
  have iff: "(\<exists>bg. Flatten bg \<in> set (ops (encodeWithQuality (content f) (outputFormat formData f) q
                                   (encoderOptions N formData f)))) = shouldFlatten formData f"
    using not_flatten
    by (auto simp: ops_eq flatten_in_buildPipeline background_encoderOptions)
  have sf: "shouldFlatten formData f =
      (form_flatten formData \<and> outputFormat formData f \<notin> {''png'', ''webp'', ''avif'', ''gif''})"
    by (simp add: shouldFlatten_def hasAlphaFormats_def)
  have ff: "form_flatten formData =
     (entries formData ''flatten'' = Some ''true'' \<or> entries formData ''flatten'' = Some ''1'')"
    by (cases "entries formData ''flatten''") (simp_all add: form_flatten_def route_toBoolean_def get_def)
  from iff sf ff show ?thesis by blast
qed

lemma outputFormat_png: "outputFormat flatten_form good_file = ''png''"
  by code_simp

lemma form_flatten_sample: "form_flatten flatten_form"
  by code_simp

text \<open>The theorem at a PNG file in a request that asks for flattening.\<close>

theorem flatten_only_without_alpha_witness:
  "outputFormat flatten_form good_file \<in> {''png'', ''webp'', ''avif'', ''gif''} \<and>
   form_flatten flatten_form \<and>
   (\<forall>bg. Flatten bg \<notin> set (ops (encodeWithQuality (content good_file) (outputFormat flatten_form good_file) 75
                                  (encoderOptions no_number flatten_form good_file))))"
  using flatten_only_without_alpha[of good_file flatten_form 75 no_number]
  by (simp add: outputFormat_png form_flatten_sample)

section \<open>Properties of the request handler\<close>

subsection \<open>The output name\<close>

lemma after_last_dot_Cons:
  "after_last_dot (c # cs) = (if CHR ''.'' \<in> set cs then after_last_dot cs
                              else if c = CHR ''.'' then cs else c # cs)"
  by (auto simp: after_last_dot_def takeWhile_append takeWhile_eq_all_conv[THEN iffD2])

lemma before_last_dot_Cons:
  "CHR ''.'' \<in> set cs \<Longrightarrow> before_last_dot (c # cs) = c # before_last_dot cs"
  by (cases "dropWhile (\<lambda>c. c \<noteq> CHR ''.'') (rev cs)")
     (auto simp: before_last_dot_def dropWhile_append)

lemma before_last_dot_first:
  "CHR ''.'' \<notin> set cs \<Longrightarrow> before_last_dot (CHR ''.'' # cs) = []"
  by (simp add: before_last_dot_def dropWhile_append)

lemma matches_to_end_iff:
  "matches_to_end (c # cs) =
     (c = CHR ''.'' \<and> cs \<noteq> [] \<and> CHR ''.'' \<notin> set cs \<and> CHR ''/'' \<notin> set cs)"
  by (auto simp: matches_to_end_def list_all_iff)

lemma replace_extension_no_dot: "CHR ''.'' \<notin> set s \<Longrightarrow> replace_extension s = s"
  by (induction s) (auto simp: matches_to_end_iff)

lemma replace_extension_eq:
  "replace_extension s =
     (if CHR ''.'' \<in> set s \<and> after_last_dot s \<noteq> [] \<and> CHR ''/'' \<notin> set (after_last_dot s)
      then before_last_dot s else s)"
proof (induction s)
  case Nil
  then show ?case by simp
next
  case (Cons c cs)
  show ?case
  proof (cases "CHR ''.'' \<in> set cs")
    case True
    with Cons show ?thesis
      by (simp add: matches_to_end_iff after_last_dot_Cons before_last_dot_Cons)
  next
    case False
    then show ?thesis
      by (simp add: matches_to_end_iff after_last_dot_Cons before_last_dot_first
          replace_extension_no_dot)
  qed
qed

text \<open>
  C10 as stated does not hold: a name that ends in a dot keeps the dot, and a name with
  a slash after its last dot keeps everything, where the claim has the text from the
  last dot on removed.
\<close>

theorem output_name_differs_from_claimed:
  "outputName empty_form trailing_dot_file = ''photo..jpg'' \<and>
   claimed_outputName empty_form trailing_dot_file = ''photo.jpg'' \<and>
   outputName empty_form slash_file = ''a.b/c.jpg'' \<and>
   claimed_outputName empty_form slash_file = ''a.jpg''"
  by code_simp

text \<open>
  C10, amended. The output name is a base, a dot and the resolved format (\<^verbatim>\<open>jpg\<close> for
  \<^verbatim>\<open>jpeg\<close>). The base is the input name up to its last dot when the text after that dot
  is not empty and has no slash; otherwise, and in particular when the name has no dot,
  it is the whole input name. It is the name of the job's result.
\<close>

theorem output_name_of_converted_file:
  "outputName formData f =
     (if CHR ''.'' \<in> set (name f) \<and> after_last_dot (name f) \<noteq> [] \<and>
         CHR ''/'' \<notin> set (after_last_dot (name f))
      then before_last_dot (name f) else name f) @ ''.'' @
     (if outputFormat formData f = ''jpeg'' then ''jpg'' else outputFormat formData f) \<and>
   (CHR ''.'' \<notin> set (name f) \<longrightarrow>
      outputName formData f =
        name f @ ''.'' @ (if outputFormat formData f = ''jpeg'' then ''jpg'' else outputFormat formData f)) \<and>
   (\<forall>out. convert_file N toBuffer formData f = Inr out \<longrightarrow> result_name out = outputName formData f)"
proof -
  have "\<forall>out. convert_file N toBuffer formData f = Inr out \<longrightarrow> result_name out = outputName formData f"
    by (auto simp: convert_file_def Let_def split: sum.splits)
  then show ?thesis
    by (simp add: outputName_def Let_def replace_extension_eq)
qed

lemma jpg_file_name: "outputName empty_form jpg_file = ''holiday.2024.jpg''"
  by code_simp

lemma good_file_converted:
  "convert_file no_number picky_codec empty_form good_file =
     Inr \<lparr>result_name = ''a.png'', result_buffer = [1], result_mime = Some ''image/png''\<rparr>"
  by code_simp

text \<open>The theorem at a name without a dot and at the job of \<^verbatim>\<open>a.png\<close>.\<close>

theorem output_name_of_converted_file_witness:
  "CHR ''.'' \<notin> set ''photo'' \<and>
   outputName empty_form \<lparr>name = ''photo'', content = [1]\<rparr> = ''photo.jpg'' \<and>
   convert_file no_number picky_codec empty_form good_file =
     Inr \<lparr>result_name = ''a.png'', result_buffer = [1], result_mime = Some ''image/png''\<rparr> \<and>
   outputName empty_form good_file = ''a.png''"
proof -
  have fmt: "outputFormat empty_form \<lparr>name = ''photo'', content = [1]\<rparr> = ''jpeg''"
    by code_simp
  have "outputName empty_form \<lparr>name = ''photo'', content = [1]\<rparr> = ''photo.jpg''"
    using output_name_of_converted_file[of empty_form "\<lparr>name = ''photo'', content = [1]\<rparr>" no_number picky_codec]
    by (simp add: fmt)
  moreover have "outputName empty_form good_file = ''a.png''"
    using output_name_of_converted_file[of empty_form good_file no_number picky_codec] good_file_converted
    by simp
  ultimately show ?thesis using good_file_converted by simp
qed

subsection \<open>A failing job in a batch\<close>

lemma promise_all_rejects:
  assumes "i < length results" "results ! i = Inl e"
  shows "\<exists>j e'. j < length results \<and> results ! j = Inl e' \<and> promise_all settle results = Inl e'"
proof -
  define rejected where
    "rejected = [e. i \<leftarrow> settle @ [0..<length results], i < length results, Inl e \<leftarrow> [results ! i]]"
  have mem: "\<And>x. x \<in> set rejected \<Longrightarrow> \<exists>j<length results. results ! j = Inl x"
    unfolding rejected_def by (auto split: sum.splits if_splits)
  from assms have "e \<in> set rejected"
    unfolding rejected_def by (auto intro!: bexI[of _ i])
  then obtain e' rest where r: "rejected = e' # rest" by (cases rejected) auto
  then have "e' \<in> set rejected" by simp
  from mem[OF this] obtain j where "j < length results" "results ! j = Inl e'" by blast
  moreover from r have "promise_all settle results = Inl e'"
    unfolding promise_all_def rejected_def by simp
  ultimately show ?thesis by blast
qed

text \<open>
  C5 as stated does not hold: in a batch of a good and a bad file the response is the
  error of the bad one and nothing of the good one, which converts when sent alone.
\<close>

theorem batch_fails_as_a_whole:
  "POST no_number picky_codec joined_archive [] batch_form = JsonError 500 ''Input buffer is empty'' \<and>
   POST no_number picky_codec joined_archive [] single_form = Download [1] (Some ''image/png'') ''a.png''"
  by code_simp

text \<open>
  C5, amended. When the job of one file of a batch fails, the whole request fails: the
  response is the JSON error with status 500 that carries the message of a failed job
  of the batch, whatever the order in which the jobs settle, and no result of another
  file is part of it.
\<close>

theorem failed_job_fails_whole_batch:
  assumes "f \<in> set (files formData)" and "convert_file N toBuffer formData f = Inl e"
  shows "\<exists>g e'. g \<in> set (files formData) \<and> convert_file N toBuffer formData g = Inl e' \<and>
           POST N toBuffer archive settle formData =
             JsonError 500 (case e' of Error message \<Rightarrow> message | Thrown \<Rightarrow> ''Failed to process images.'')"
proof -
  from assms(1) obtain i where i: "i < length (files formData)" and fi: "files formData ! i = f"
    by (auto simp: in_set_conv_nth)
  define results where "results = map (convert_file N toBuffer formData) (files formData)"
  from i fi assms(2) have "i < length results" "results ! i = Inl e"
    by (simp_all add: results_def)
  from promise_all_rejects[OF this, of settle] obtain j e' where
    j: "j < length results" and rj: "results ! j = Inl e'"
    and pa: "promise_all settle results = Inl e'" by blast
  from j rj have "files formData ! j \<in> set (files formData)"
    and "convert_file N toBuffer formData (files formData ! j) = Inl e'"
    by (simp_all add: results_def)
  moreover from assms(1) pa have "POST N toBuffer archive settle formData =
      JsonError 500 (case e' of Error message \<Rightarrow> message | Thrown \<Rightarrow> ''Failed to process images.'')"
    by (auto simp: POST_def results_def failure_def)
  ultimately show ?thesis by blast
qed

lemma bad_file_rejected:
  "convert_file no_number picky_codec batch_form bad_file = Inl (Error ''Input buffer is empty'')"
  by code_simp

theorem failed_job_fails_whole_batch_witness:
  "bad_file \<in> set (files batch_form) \<and>
   convert_file no_number picky_codec batch_form bad_file = Inl (Error ''Input buffer is empty'') \<and>
   (\<exists>g e'. g \<in> set (files batch_form) \<and>
      convert_file no_number picky_codec batch_form g = Inl e' \<and>
      POST no_number picky_codec joined_archive [1, 0] batch_form =
        JsonError 500 (case e' of Error message \<Rightarrow> message | Thrown \<Rightarrow> ''Failed to process images.''))"
proof -
  have mem: "bad_file \<in> set (files batch_form)"
    by (simp add: batch_form_def)
  from failed_job_fails_whole_batch[OF mem bad_file_rejected, of joined_archive "[1, 0]"] mem bad_file_rejected
  show ?thesis by blast
qed

end
